theory Spec2Isabelle
  imports Complex_Main "HOL-Library.Word"
begin

section \<open>The Material aggregate of src/assets/domain/material.go\<close>

subsection \<open>Errors\<close>

text \<open>
  A Go \<open>error\<close> built by \<open>errors.New(msg)\<close> is \<open>errors_New msg\<close>. Calling a method
  on a nil interface value does not return: it raises a run-time panic, which is the
  value \<open>runtime_panic\<close>. The error kinds of the specification are the messages of the
  code: InvalidInput is "cannot be empty" (and "price cannot be empty" for a price),
  TooShort is "too few characters", UnsupportedCurrency is "money not found",
  InvalidQuantity and InvalidQuantityUnit are both "Cannot be empty".
\<close>

datatype error = errors_New string | runtime_panic

subsection \<open>Money\<close>

definition MoneyEUR :: string where
  "MoneyEUR = ''EUR''"

definition MoneyIDR :: string where
  "MoneyIDR = ''IDR''"

text \<open>
  The interface \<open>Money\<close> has one implementation, the struct \<open>EUR\<close> with its field
  \<open>amount\<close>. A nil interface value is \<open>None\<close> of \<open>Money option\<close>.
\<close>

datatype Money = EUR string

fun Money_Code :: "Money \<Rightarrow> string" where
  "Money_Code (EUR amount) = MoneyEUR"

text \<open>The symbol is the euro sign, three bytes in the UTF-8 of a Go string.\<close>

fun Money_Symbol :: "Money \<Rightarrow> string" where
  "Money_Symbol (EUR amount) = [CHR 0xE2, CHR 0x82, CHR 0xAC]"

fun Money_Amount :: "Money \<Rightarrow> string" where
  "Money_Amount (EUR amount) = amount"

fun SetAmount :: "Money \<Rightarrow> string \<Rightarrow> Money" where
  "SetAmount (EUR old) amount = EUR amount"

definition CreateMoney :: "string \<Rightarrow> string \<Rightarrow> error + Money" where
  "CreateMoney price priceUnit =
     (if price = [] then Inl (errors_New ''price cannot be empty'')
      else if priceUnit = Money_Code (EUR []) then Inr (SetAmount (EUR []) price)
      else Inl (errors_New ''money not found''))"

subsection \<open>Material types\<close>

text \<open>
  Modelled from the spec: the interface \<open>MaterialType\<close> and the constants
  \<open>MaterialTypeSeedCode\<close> ... \<open>MaterialTypeOtherCode\<close> are declared in another file
  of the package, outside material.go. The source uses a material type only
  through its method \<open>Code()\<close>, so a material type is a value holding its code. The
  specification gives the seed code as "SEED"; the other seven codes are written after
  the names of their constants. Go rejects a switch with two equal constant cases, so
  the eight codes differ from each other; nothing below depends on more than that.
\<close>

datatype MaterialType = MaterialType string

fun MaterialType_Code :: "MaterialType \<Rightarrow> string" where
  "MaterialType_Code (MaterialType code) = code"

definition MaterialTypeSeedCode :: string where
  "MaterialTypeSeedCode = ''SEED''"

definition MaterialTypeAgrochemicalCode :: string where
  "MaterialTypeAgrochemicalCode = ''AGROCHEMICAL''"

definition MaterialTypeGrowingMediumCode :: string where
  "MaterialTypeGrowingMediumCode = ''GROWING_MEDIUM''"

definition MaterialTypeLabelAndCropSupportCode :: string where
  "MaterialTypeLabelAndCropSupportCode = ''LABEL_AND_CROP_SUPPORT''"

definition MaterialTypeSeedingContainerCode :: string where
  "MaterialTypeSeedingContainerCode = ''SEEDING_CONTAINER''"

definition MaterialTypePostHarvestSupplyCode :: string where
  "MaterialTypePostHarvestSupplyCode = ''POST_HARVEST_SUPPLY''"

definition MaterialTypePlantCode :: string where
  "MaterialTypePlantCode = ''PLANT''"

definition MaterialTypeOtherCode :: string where
  "MaterialTypeOtherCode = ''OTHER''"

subsection \<open>Quantities and their units\<close>

definition MaterialUnitSeeds :: string where
  "MaterialUnitSeeds = ''SEEDS''"

definition MaterialUnitPackets :: string where
  "MaterialUnitPackets = ''PACKETS''"

definition MaterialUnitGram :: string where
  "MaterialUnitGram = ''GRAM''"

definition MaterialUnitKilogram :: string where
  "MaterialUnitKilogram = ''KILOGRAM''"

definition MaterialUnitBags :: string where
  "MaterialUnitBags = ''BAGS''"

definition MaterialUnitBottles :: string where
  "MaterialUnitBottles = ''BOTTLES''"

definition MaterialUnitCubicMetre :: string where
  "MaterialUnitCubicMetre = ''CUBIC_METRE''"

definition MaterialUnitPieces :: string where
  "MaterialUnitPieces = ''PIECES''"

definition MaterialUnitUnits :: string where
  "MaterialUnitUnits = ''UNITS''"

text \<open>
  A \<open>float32\<close> is a finite number, an infinity or a NaN. The finite values are the
  reals, of which the machine's are a part; the zero of either sign is \<open>Finite 0\<close>.
  The source only copies a quantity and compares it with zero.
\<close>

datatype float32 = Finite real | PosInf | NegInf | NaN

text \<open>The comparison \<open>quantity <= 0\<close>: every comparison with a NaN is false.\<close>

fun float32_le_zero :: "float32 \<Rightarrow> bool" where
  "float32_le_zero (Finite r) = (r \<le> 0)"
| "float32_le_zero PosInf = False"
| "float32_le_zero NegInf = True"
| "float32_le_zero NaN = False"

record MaterialQuantityUnit =
  Code :: string
  Label :: string

record MaterialQuantity =
  Value :: float32
  Unit :: MaterialQuantityUnit

text \<open>The zero values \<open>MaterialQuantityUnit{}\<close> and \<open>MaterialQuantity{}\<close>.\<close>

definition zero_MaterialQuantityUnit :: MaterialQuantityUnit where
  "zero_MaterialQuantityUnit = \<lparr>Code = [], Label = []\<rparr>"

definition zero_MaterialQuantity :: MaterialQuantity where
  "zero_MaterialQuantity = \<lparr>Value = Finite 0, Unit = zero_MaterialQuantityUnit\<rparr>"

definition MaterialQuantityUnits :: "string \<Rightarrow> MaterialQuantityUnit list" where
  "MaterialQuantityUnits materialTypeCode =
     (if materialTypeCode = MaterialTypeSeedCode then
        [\<lparr>Code = MaterialUnitSeeds, Label = ''Seeds''\<rparr>,
         \<lparr>Code = MaterialUnitPackets, Label = ''Packets''\<rparr>,
         \<lparr>Code = MaterialUnitGram, Label = ''Gram''\<rparr>,
         \<lparr>Code = MaterialUnitKilogram, Label = ''Kilogram''\<rparr>]
      else if materialTypeCode = MaterialTypeAgrochemicalCode then
        [\<lparr>Code = MaterialUnitPackets, Label = ''Packets''\<rparr>,
         \<lparr>Code = MaterialUnitBottles, Label = ''Bottles''\<rparr>,
         \<lparr>Code = MaterialUnitBags, Label = ''Bags''\<rparr>]
      else if materialTypeCode = MaterialTypeGrowingMediumCode then
        [\<lparr>Code = MaterialUnitBags, Label = ''Bags''\<rparr>,
         \<lparr>Code = MaterialUnitCubicMetre, Label = ''Cubic Metre''\<rparr>]
      else if materialTypeCode = MaterialTypeLabelAndCropSupportCode then
        [\<lparr>Code = MaterialUnitPieces, Label = ''Pieces''\<rparr>]
      else if materialTypeCode = MaterialTypeSeedingContainerCode then
        [\<lparr>Code = MaterialUnitPieces, Label = ''Pieces''\<rparr>]
      else if materialTypeCode = MaterialTypePostHarvestSupplyCode then
        [\<lparr>Code = MaterialUnitPieces, Label = ''Pieces''\<rparr>]
      else if materialTypeCode = MaterialTypePlantCode then
        [\<lparr>Code = MaterialUnitUnits, Label = ''Units''\<rparr>,
         \<lparr>Code = MaterialUnitPackets, Label = ''Packets''\<rparr>]
      else if materialTypeCode = MaterialTypeOtherCode then
        [\<lparr>Code = MaterialUnitPieces, Label = ''Pieces''\<rparr>]
      else [])"

text \<open>
  The loop of \<open>GetMaterialQuantityUnit\<close> over the slice: the first element whose code
  is the one asked for is returned, and the zero value after the last element.
\<close>

fun GetMaterialQuantityUnit_range ::
  "MaterialQuantityUnit list \<Rightarrow> string \<Rightarrow> MaterialQuantityUnit" where
  "GetMaterialQuantityUnit_range [] code = zero_MaterialQuantityUnit"
| "GetMaterialQuantityUnit_range (v # vs) code =
     (if Code v = code then v else GetMaterialQuantityUnit_range vs code)"

definition GetMaterialQuantityUnit :: "string \<Rightarrow> string \<Rightarrow> MaterialQuantityUnit" where
  "GetMaterialQuantityUnit materialTypeCode code =
     GetMaterialQuantityUnit_range (MaterialQuantityUnits materialTypeCode) code"

definition validateQuantity :: "float32 \<Rightarrow> error option" where
  "validateQuantity quantity =
     (if float32_le_zero quantity then Some (errors_New ''Cannot be empty'') else None)"

text \<open>
  \<open>materialType.Code()\<close> on a nil interface panics; the function has no check before
  the call.
\<close>

definition validateQuantityUnit ::
  "string \<Rightarrow> MaterialType option \<Rightarrow> error + MaterialQuantityUnit" where
  "validateQuantityUnit quantityUnit materialType =
     (case materialType of
        None \<Rightarrow> Inl runtime_panic
      | Some t \<Rightarrow>
          (let qu = GetMaterialQuantityUnit (MaterialType_Code t) quantityUnit
           in if qu = zero_MaterialQuantityUnit
              then Inl (errors_New ''Cannot be empty'')
              else Inr qu))"

subsection \<open>Events\<close>

text \<open>
  Modelled from the spec: the event structs are declared in another file of the
  package, outside material.go. Their fields are those of the composite literals of
  the source, in the order written there: \<open>MaterialCreated{UID, Name, PricePerUnit,
  Type, Quantity, ExpirationDate, Notes, ProducedBy, IsExpense}\<close>,
  \<open>MaterialNameChanged{UID, Name}\<close>, \<open>MaterialPriceChanged{UID, Price}\<close> and
  \<open>MaterialQuantityChanged{UID, Quantity}\<close>. An event is an \<open>interface{}\<close>:
  \<open>OtherEvent\<close> is a value of any other dynamic type.

  A \<open>uuid.UUID\<close> is an array of 16 bytes. The pointer fields are only copied, never
  read through or written through, so a pointer is the optional value it points to
  (\<open>None\<close> for nil); a \<open>time.Time\<close> is an instant, an integer.
\<close>

type_synonym UUID = "8 word list"

type_synonym Time = int

datatype Event =
    MaterialCreated
      (created_UID: UUID)
      (created_Name: string)
      (created_PricePerUnit: "Money option")
      (created_Type: "MaterialType option")
      (created_Quantity: MaterialQuantity)
      (created_ExpirationDate: "Time option")
      (created_Notes: "string option")
      (created_ProducedBy: "string option")
      (created_IsExpense: "bool option")
  | MaterialNameChanged UUID string
  | MaterialPriceChanged UUID "Money option"
  | MaterialQuantityChanged UUID MaterialQuantity
  | OtherEvent

subsection \<open>The aggregate\<close>

record Material =
  UID :: UUID
  Name :: string
  PricePerUnit :: "Money option"
  Type :: "MaterialType option"
  Quantity :: MaterialQuantity
  ExpirationDate :: "Time option"
  Notes :: "string option"
  IsExpense :: "bool option"
  ProducedBy :: "string option"
  Version :: int
  UncommittedChanges :: "Event list"

text \<open>The zero value \<open>Material{}\<close>.\<close>

definition zero_Material :: Material where
  "zero_Material =
     \<lparr>UID = replicate 16 0, Name = [], PricePerUnit = None, Type = None,
      Quantity = zero_MaterialQuantity, ExpirationDate = None, Notes = None,
      IsExpense = None, ProducedBy = None, Version = 0, UncommittedChanges = []\<rparr>"

text \<open>
  The type switch of \<open>Transition\<close> has the single case \<open>MaterialCreated\<close>; an event of
  any other type matches no case and the state is left as it is.
\<close>

fun Transition :: "Material \<Rightarrow> Event \<Rightarrow> Material" where
  "Transition state
     (MaterialCreated uid name pricePerUnit materialType quantity expirationDate notes
        producedBy isExpense) =
     state\<lparr>UID := uid, Name := name, PricePerUnit := pricePerUnit, Type := materialType,
           Quantity := quantity, ExpirationDate := expirationDate, Notes := notes,
           ProducedBy := producedBy, IsExpense := isExpense\<rparr>"
| "Transition state (MaterialNameChanged uid name) = state"
| "Transition state (MaterialPriceChanged uid price) = state"
| "Transition state (MaterialQuantityChanged uid quantity) = state"
| "Transition state OtherEvent = state"

definition TrackChange :: "Material \<Rightarrow> Event \<Rightarrow> Material" where
  "TrackChange state event =
     Transition (state\<lparr>UncommittedChanges := UncommittedChanges state @ [event]\<rparr>) event"

text \<open>
  \<open>CreateMaterial\<close> takes as its first argument what \<open>uuid.NewV4()\<close> returns: an
  error or the fresh identifier.
\<close>

definition CreateMaterial ::
  "error + UUID \<Rightarrow> string \<Rightarrow> string \<Rightarrow> string \<Rightarrow> MaterialType option \<Rightarrow> float32 \<Rightarrow> string \<Rightarrow>
   Time option \<Rightarrow> string option \<Rightarrow> string option \<Rightarrow> bool option \<Rightarrow> error + Material" where
  "CreateMaterial newV4 name price priceUnit materialType quantity quantityUnit
     expirationDate notes producedBy isExpense =
     (case newV4 of
        Inl err \<Rightarrow> Inl err
      | Inr uid \<Rightarrow>
     (case CreateMoney price priceUnit of
        Inl err \<Rightarrow> Inl err
      | Inr money \<Rightarrow>
     (if materialType = None then Inl (errors_New ''cannot be empty'')
      else
     (case validateQuantity quantity of
        Some err \<Rightarrow> Inl err
      | None \<Rightarrow>
     (case validateQuantityUnit quantityUnit materialType of
        Inl err \<Rightarrow> Inl err
      | Inr qu \<Rightarrow>
          (let initial =
                 \<lparr>UID = uid, Name = name, PricePerUnit = Some money, Type = materialType,
                  Quantity = \<lparr>Value = quantity, Unit = qu\<rparr>,
                  ExpirationDate = expirationDate, Notes = notes,
                  IsExpense = isExpense, ProducedBy = producedBy,
                  Version = 0, UncommittedChanges = []\<rparr>
           in Inr (TrackChange initial
                 (MaterialCreated (UID initial) (Name initial) (PricePerUnit initial)
                    (Type initial) (Quantity initial) (ExpirationDate initial)
                    (Notes initial) (ProducedBy initial) (IsExpense initial)))))))))"

text \<open>
  A command is a method on \<open>*Material\<close> that returns an \<open>error\<close>: the model returns the
  aggregate as the call leaves it, and the error (\<open>None\<close> for nil).
\<close>

definition ChangeName :: "Material \<Rightarrow> string \<Rightarrow> Material \<times> error option" where
  "ChangeName m name =
     (if name = [] then (m, Some (errors_New ''cannot be empty''))
      else if length name \<le> 5 then (m, Some (errors_New ''too few characters''))
      else (TrackChange m (MaterialNameChanged (UID m) name), None))"

definition ChangePricePerUnit :: "Material \<Rightarrow> string \<Rightarrow> string \<Rightarrow> Material \<times> error option" where
  "ChangePricePerUnit m price priceUnit =
     (case CreateMoney price priceUnit of
        Inl err \<Rightarrow> (m, Some err)
      | Inr money \<Rightarrow> (TrackChange m (MaterialPriceChanged (UID m) (Some money)), None))"

definition ChangeQuantityUnit ::
  "Material \<Rightarrow> float32 \<Rightarrow> string \<Rightarrow> MaterialType option \<Rightarrow> Material \<times> error option" where
  "ChangeQuantityUnit m quantity quantityUnit materialType =
     (case validateQuantity quantity of
        Some err \<Rightarrow> (m, Some err)
      | None \<Rightarrow>
     (case validateQuantityUnit quantityUnit materialType of
        Inl err \<Rightarrow> (m, Some err)
      | Inr qu \<Rightarrow>
          (TrackChange m
             (MaterialQuantityChanged (UID m) \<lparr>Value = quantity, Unit = qu\<rparr>), None)))"

subsection \<open>Command sequences and replay\<close>

text \<open>
  The vocabulary of the replay property: a command with its arguments, a sequence of
  commands run on an aggregate up to the first one that fails, the fold of
  \<open>Transition\<close> over a sequence of events from the zero state, and the nine state
  fields of an aggregate (all but the bookkeeping fields \<open>Version\<close> and
  \<open>UncommittedChanges\<close>).
\<close>

datatype Command =
    DoChangeName string
  | DoChangePricePerUnit string string
  | DoChangeQuantityUnit float32 string "MaterialType option"

fun apply_command :: "Material \<Rightarrow> Command \<Rightarrow> Material \<times> error option" where
  "apply_command m (DoChangeName name) = ChangeName m name"
| "apply_command m (DoChangePricePerUnit price priceUnit) =
     ChangePricePerUnit m price priceUnit"
| "apply_command m (DoChangeQuantityUnit quantity quantityUnit materialType) =
     ChangeQuantityUnit m quantity quantityUnit materialType"

fun apply_commands :: "Material \<Rightarrow> Command list \<Rightarrow> Material \<times> error option" where
  "apply_commands m [] = (m, None)"
| "apply_commands m (c # cs) =
     (case apply_command m c of
        (m', None) \<Rightarrow> apply_commands m' cs
      | (m', Some err) \<Rightarrow> (m', Some err))"

definition replay :: "Event list \<Rightarrow> Material" where
  "replay events = foldl Transition zero_Material events"

definition state_fields ::
  "Material \<Rightarrow> UUID \<times> string \<times> Money option \<times> MaterialType option \<times> MaterialQuantity \<times>
     Time option \<times> string option \<times> bool option \<times> string option" where
  "state_fields m =
     (UID m, Name m, PricePerUnit m, Type m, Quantity m, ExpirationDate m, Notes m,
      IsExpense m, ProducedBy m)"

subsection \<open>The end-to-end example of the specification\<close>

text \<open>
  \<open>Create("Tomato Seeds", "5.00", "EUR", SeedType, 100, "SEEDS", nil, nil, nil, nil)\<close>
  with a given fresh identifier, followed by
  \<open>ChangeQuantityUnit(50, "KILOGRAM", SeedType)\<close>.
\<close>

definition SeedType :: MaterialType where
  "SeedType = MaterialType MaterialTypeSeedCode"

definition example_uid :: UUID where
  "example_uid = [0x6b, 0xa7, 0xb8, 0x10, 0x9d, 0xad, 0x41, 0xd1,
                  0x80, 0xb4, 0x00, 0xc0, 0x4f, 0xd4, 0x30, 0xc8]"

definition tomato_created :: "error + Material" where
  "tomato_created =
     CreateMaterial (Inr example_uid) ''Tomato Seeds'' ''5.00'' ''EUR'' (Some SeedType)
       (Finite 100) ''SEEDS'' None None None None"

definition tomato_changed :: "Material \<times> error option" where
  "tomato_changed =
     ChangeQuantityUnit (projr tomato_created) (Finite 50) ''KILOGRAM'' (Some SeedType)"

definition tomato_commands :: "Command list" where
  "tomato_commands =
     [DoChangeName ''Cherry Tomato'', DoChangePricePerUnit ''7.25'' ''EUR'',
      DoChangeQuantityUnit (Finite 50) ''KILOGRAM'' (Some SeedType)]"

section \<open>Properties\<close>

lemmas MaterialTypeCode_defs =
  MaterialTypeSeedCode_def MaterialTypeAgrochemicalCode_def
  MaterialTypeGrowingMediumCode_def MaterialTypeLabelAndCropSupportCode_def
  MaterialTypeSeedingContainerCode_def MaterialTypePostHarvestSupplyCode_def
  MaterialTypePlantCode_def MaterialTypeOtherCode_def

lemmas MaterialUnit_defs =
  MaterialUnitSeeds_def MaterialUnitPackets_def MaterialUnitGram_def
  MaterialUnitKilogram_def MaterialUnitBags_def MaterialUnitBottles_def
  MaterialUnitCubicMetre_def MaterialUnitPieces_def MaterialUnitUnits_def

subsection \<open>The search for a unit\<close>

lemma GetMaterialQuantityUnit_range_find:
  "GetMaterialQuantityUnit_range vs code =
     (case find (\<lambda>v. Code v = code) vs of
        None \<Rightarrow> zero_MaterialQuantityUnit | Some v \<Rightarrow> v)"
  by (induction vs) simp_all

lemma GetMaterialQuantityUnit_range_absent:
  "\<forall>v \<in> set vs. Code v \<noteq> code \<Longrightarrow>
   GetMaterialQuantityUnit_range vs code = zero_MaterialQuantityUnit"
  by (induction vs) simp_all

lemma GetMaterialQuantityUnit_range_present:
  "GetMaterialQuantityUnit_range vs code \<noteq> zero_MaterialQuantityUnit \<Longrightarrow>
   GetMaterialQuantityUnit_range vs code \<in> set vs
   \<and> Code (GetMaterialQuantityUnit_range vs code) = code"
  by (induction vs) (simp_all split: if_splits)

lemma MaterialQuantityUnits_unrecognized:
  "t \<notin> {MaterialTypeSeedCode, MaterialTypeAgrochemicalCode, MaterialTypeGrowingMediumCode,
          MaterialTypeLabelAndCropSupportCode, MaterialTypeSeedingContainerCode,
          MaterialTypePostHarvestSupplyCode, MaterialTypePlantCode, MaterialTypeOtherCode}
   \<Longrightarrow> MaterialQuantityUnits t = []"
  by (simp add: MaterialQuantityUnits_def)

lemma validateQuantityUnit_Inr:
  "validateQuantityUnit quantityUnit materialType = Inr qu \<Longrightarrow>
   \<exists>t. materialType = Some t
     \<and> qu = GetMaterialQuantityUnit (MaterialType_Code t) quantityUnit
     \<and> qu \<noteq> zero_MaterialQuantityUnit
     \<and> qu \<in> set (MaterialQuantityUnits (MaterialType_Code t))
     \<and> Code qu = quantityUnit"
  using GetMaterialQuantityUnit_range_present
  by (auto simp add: validateQuantityUnit_def GetMaterialQuantityUnit_def Let_def
      split: option.splits if_splits)

text \<open>
  C8. \<open>GetMaterialQuantityUnit\<close> is the linear search of the table of the material
  type code for the first unit with the code asked for; it returns the zero-value unit
  (empty code, empty label) whenever no unit of the table has that code, and whenever the
  type code is none of the eight known codes; it returns a unit on every input. For the
  type code "SEED" the code "BAGS" gives the zero-value unit and the code "GRAM" gives
  the unit with code "GRAM" and label "Gram".
\<close>

theorem GetMaterialQuantityUnit_linear_search:
  "GetMaterialQuantityUnit t c =
     (case find (\<lambda>v. Code v = c) (MaterialQuantityUnits t) of
        None \<Rightarrow> \<lparr>Code = [], Label = []\<rparr> | Some v \<Rightarrow> v)
   \<and> ((\<forall>v \<in> set (MaterialQuantityUnits t). Code v \<noteq> c) \<longrightarrow>
        GetMaterialQuantityUnit t c = \<lparr>Code = [], Label = []\<rparr>)
   \<and> (t \<notin> {MaterialTypeSeedCode, MaterialTypeAgrochemicalCode,
            MaterialTypeGrowingMediumCode, MaterialTypeLabelAndCropSupportCode,
            MaterialTypeSeedingContainerCode, MaterialTypePostHarvestSupplyCode,
            MaterialTypePlantCode, MaterialTypeOtherCode} \<longrightarrow>
        GetMaterialQuantityUnit t c = \<lparr>Code = [], Label = []\<rparr>)
   \<and> GetMaterialQuantityUnit ''SEED'' ''BAGS'' = \<lparr>Code = [], Label = []\<rparr>
   \<and> GetMaterialQuantityUnit ''SEED'' ''GRAM'' = \<lparr>Code = ''GRAM'', Label = ''Gram''\<rparr>"
proof (intro conjI impI)
  show "GetMaterialQuantityUnit t c =
     (case find (\<lambda>v. Code v = c) (MaterialQuantityUnits t) of
        None \<Rightarrow> \<lparr>Code = [], Label = []\<rparr> | Some v \<Rightarrow> v)"
    unfolding GetMaterialQuantityUnit_def GetMaterialQuantityUnit_range_find
      zero_MaterialQuantityUnit_def by (rule refl)
next
  assume "\<forall>v \<in> set (MaterialQuantityUnits t). Code v \<noteq> c"
  then show "GetMaterialQuantityUnit t c = \<lparr>Code = [], Label = []\<rparr>"
    by (simp add: GetMaterialQuantityUnit_def GetMaterialQuantityUnit_range_absent
        zero_MaterialQuantityUnit_def)
next
  assume "t \<notin> {MaterialTypeSeedCode, MaterialTypeAgrochemicalCode,
            MaterialTypeGrowingMediumCode, MaterialTypeLabelAndCropSupportCode,
            MaterialTypeSeedingContainerCode, MaterialTypePostHarvestSupplyCode,
            MaterialTypePlantCode, MaterialTypeOtherCode}"
  then have "MaterialQuantityUnits t = []"
    by (rule MaterialQuantityUnits_unrecognized)
  then show "GetMaterialQuantityUnit t c = \<lparr>Code = [], Label = []\<rparr>"
    by (simp add: GetMaterialQuantityUnit_def zero_MaterialQuantityUnit_def)
next
  show "GetMaterialQuantityUnit ''SEED'' ''BAGS'' = \<lparr>Code = [], Label = []\<rparr>"
    by (simp add: GetMaterialQuantityUnit_def MaterialQuantityUnits_def
        MaterialTypeSeedCode_def MaterialUnit_defs zero_MaterialQuantityUnit_def)
next
  show "GetMaterialQuantityUnit ''SEED'' ''GRAM'' = \<lparr>Code = ''GRAM'', Label = ''Gram''\<rparr>"
    by (simp add: GetMaterialQuantityUnit_def MaterialQuantityUnits_def
        MaterialTypeSeedCode_def MaterialUnit_defs)
qed

theorem GetMaterialQuantityUnit_linear_search_witness:
  "''BAGS'' \<notin> set (map Code (MaterialQuantityUnits ''SEED''))
   \<and> GetMaterialQuantityUnit ''SEED'' ''BAGS'' = \<lparr>Code = [], Label = []\<rparr>
   \<and> ''TOOLS'' \<notin> {MaterialTypeSeedCode, MaterialTypeAgrochemicalCode,
          MaterialTypeGrowingMediumCode, MaterialTypeLabelAndCropSupportCode,
          MaterialTypeSeedingContainerCode, MaterialTypePostHarvestSupplyCode,
          MaterialTypePlantCode, MaterialTypeOtherCode}
   \<and> GetMaterialQuantityUnit ''TOOLS'' ''PIECES'' = \<lparr>Code = [], Label = []\<rparr>"
proof -
  have a: "''BAGS'' \<notin> set (map Code (MaterialQuantityUnits ''SEED''))"
    by (simp add: MaterialQuantityUnits_def MaterialTypeSeedCode_def MaterialUnit_defs)
  have a': "\<forall>v \<in> set (MaterialQuantityUnits ''SEED''). Code v \<noteq> ''BAGS''"
    by (simp add: MaterialQuantityUnits_def MaterialTypeSeedCode_def MaterialUnit_defs)
  have b: "''TOOLS'' \<notin> {MaterialTypeSeedCode, MaterialTypeAgrochemicalCode,
          MaterialTypeGrowingMediumCode, MaterialTypeLabelAndCropSupportCode,
          MaterialTypeSeedingContainerCode, MaterialTypePostHarvestSupplyCode,
          MaterialTypePlantCode, MaterialTypeOtherCode}"
    by (simp add: MaterialTypeCode_defs)
  from a a' b GetMaterialQuantityUnit_linear_search [of "''SEED''" "''BAGS''"]
    GetMaterialQuantityUnit_linear_search [of "''TOOLS''" "''PIECES''"]
  show ?thesis by blast
qed

subsection \<open>Validation of a quantity\<close>

text \<open>
  C9. \<open>validateQuantity\<close> returns an error exactly when the quantity is less than or
  equal to 0 (a finite value that is at most 0, or minus infinity), and no error for
  every strictly positive value; it fails for 0 and for -1 and succeeds for 0.01 (as a
  float32, the number 10737418 / 2^30).
\<close>

theorem validateQuantity_le_zero:
  "(validateQuantity q \<noteq> None) = (q = NegInf \<or> (\<exists>r. q = Finite r \<and> r \<le> 0))
   \<and> (\<forall>r. 0 < r \<longrightarrow> validateQuantity (Finite r) = None)
   \<and> validateQuantity PosInf = None
   \<and> validateQuantity (Finite 0) = Some (errors_New ''Cannot be empty'')
   \<and> validateQuantity (Finite (- 1)) = Some (errors_New ''Cannot be empty'')
   \<and> validateQuantity (Finite (10737418 / 2 ^ 30)) = None"
  by (cases q) (simp_all add: validateQuantity_def)

theorem validateQuantity_le_zero_witness:
  "(0::real) < 100 \<and> validateQuantity (Finite 100) = None
   \<and> validateQuantity (Finite (- 1)) \<noteq> None"
proof -
  have pos: "(0::real) < 100" by simp
  from validateQuantity_le_zero [of "Finite (- 1)"]
  have "\<forall>r. 0 < r \<longrightarrow> validateQuantity (Finite r) = None"
    and "validateQuantity (Finite (- 1)) \<noteq> None"
    by simp_all
  with pos show ?thesis by blast
qed

subsection \<open>Money\<close>

text \<open>
  C7. \<open>CreateMoney\<close> fails when the amount is the empty string; with a non-empty
  amount it fails with the unsupported-currency error ("money not found") for every
  currency code other than "EUR", the only known variant; with a non-empty amount and
  the code "EUR" it succeeds with a Money whose amount is the given string, whose symbol
  is the euro sign and whose code is "EUR".
\<close>

theorem CreateMoney_validation:
  "CreateMoney [] priceUnit = Inl (errors_New ''price cannot be empty'')
   \<and> (price \<noteq> [] \<and> priceUnit \<noteq> ''EUR'' \<longrightarrow>
        CreateMoney price priceUnit = Inl (errors_New ''money not found''))
   \<and> (price \<noteq> [] \<longrightarrow>
        (\<exists>money. CreateMoney price ''EUR'' = Inr money
           \<and> Money_Amount money = price
           \<and> Money_Symbol money = [CHR 0xE2, CHR 0x82, CHR 0xAC]
           \<and> Money_Code money = ''EUR''))"
  by (simp add: CreateMoney_def MoneyEUR_def)

theorem CreateMoney_validation_witness:
  "''10.50'' \<noteq> [] \<and> ''XYZ'' \<noteq> ''EUR''
   \<and> CreateMoney [] ''EUR'' = Inl (errors_New ''price cannot be empty'')
   \<and> CreateMoney ''10.50'' ''XYZ'' = Inl (errors_New ''money not found'')
   \<and> (\<exists>money. CreateMoney ''10.50'' ''EUR'' = Inr money
         \<and> Money_Amount money = ''10.50''
         \<and> Money_Symbol money = [CHR 0xE2, CHR 0x82, CHR 0xAC]
         \<and> Money_Code money = ''EUR'')"
  using CreateMoney_validation [of "''XYZ''" "''10.50''"]
    CreateMoney_validation [of "''EUR''" "''10.50''"]
  by simp

subsection \<open>Tracking an event\<close>

lemma TrackChange_MaterialCreated:
  "TrackChange state (MaterialCreated uid name price ty q ed notes pb ie) =
     state\<lparr>UID := uid, Name := name, PricePerUnit := price, Type := ty, Quantity := q,
           ExpirationDate := ed, Notes := notes, ProducedBy := pb, IsExpense := ie,
           UncommittedChanges :=
             UncommittedChanges state @ [MaterialCreated uid name price ty q ed notes pb ie]\<rparr>"
  by (simp add: TrackChange_def)

lemma TrackChange_not_created:
  "TrackChange state (MaterialNameChanged uid name) =
     state\<lparr>UncommittedChanges := UncommittedChanges state @ [MaterialNameChanged uid name]\<rparr>"
  "TrackChange state (MaterialPriceChanged uid price) =
     state\<lparr>UncommittedChanges := UncommittedChanges state @ [MaterialPriceChanged uid price]\<rparr>"
  "TrackChange state (MaterialQuantityChanged uid quantity) =
     state\<lparr>UncommittedChanges :=
             UncommittedChanges state @ [MaterialQuantityChanged uid quantity]\<rparr>"
  by (simp_all add: TrackChange_def)

lemma tomato_created_eq:
  "tomato_created =
     Inr \<lparr>UID = example_uid, Name = ''Tomato Seeds'', PricePerUnit = Some (EUR ''5.00''),
          Type = Some SeedType,
          Quantity = \<lparr>Value = Finite 100, Unit = \<lparr>Code = ''SEEDS'', Label = ''Seeds''\<rparr>\<rparr>,
          ExpirationDate = None, Notes = None, IsExpense = None, ProducedBy = None,
          Version = 0,
          UncommittedChanges =
            [MaterialCreated example_uid ''Tomato Seeds'' (Some (EUR ''5.00''))
               (Some SeedType)
               \<lparr>Value = Finite 100, Unit = \<lparr>Code = ''SEEDS'', Label = ''Seeds''\<rparr>\<rparr>
               None None None None]\<rparr>"
  by (simp add: tomato_created_def CreateMaterial_def CreateMoney_def MoneyEUR_def
      validateQuantity_def validateQuantityUnit_def GetMaterialQuantityUnit_def
      MaterialQuantityUnits_def SeedType_def MaterialTypeSeedCode_def MaterialUnit_defs
      zero_MaterialQuantityUnit_def Let_def TrackChange_MaterialCreated)

lemma tomato_changed_eq:
  "tomato_changed =
     (\<lparr>UID = example_uid, Name = ''Tomato Seeds'', PricePerUnit = Some (EUR ''5.00''),
       Type = Some SeedType,
       Quantity = \<lparr>Value = Finite 100, Unit = \<lparr>Code = ''SEEDS'', Label = ''Seeds''\<rparr>\<rparr>,
       ExpirationDate = None, Notes = None, IsExpense = None, ProducedBy = None,
       Version = 0,
       UncommittedChanges =
         [MaterialCreated example_uid ''Tomato Seeds'' (Some (EUR ''5.00''))
            (Some SeedType)
            \<lparr>Value = Finite 100, Unit = \<lparr>Code = ''SEEDS'', Label = ''Seeds''\<rparr>\<rparr>
            None None None None,
          MaterialQuantityChanged example_uid
            \<lparr>Value = Finite 50, Unit = \<lparr>Code = ''KILOGRAM'', Label = ''Kilogram''\<rparr>\<rparr>]\<rparr>,
      None)"
  by (simp add: tomato_changed_def tomato_created_eq ChangeQuantityUnit_def
      validateQuantity_def validateQuantityUnit_def GetMaterialQuantityUnit_def
      MaterialQuantityUnits_def SeedType_def MaterialTypeSeedCode_def MaterialUnit_defs
      zero_MaterialQuantityUnit_def Let_def TrackChange_def)

text \<open>
  C1. The claim is that the fold of a MaterialNameChanged, MaterialPriceChanged or
  MaterialQuantityChanged event sets the name, the price or the quantity to the value the
  event carries. The type switch has no case for these events: on the aggregate of the
  end-to-end example, the fold of MaterialNameChanged with "Cherry Tomato" leaves the
  name "Tomato Seeds", the fold of MaterialPriceChanged with 7.25 EUR leaves the price
  5.00 EUR, and the fold of MaterialQuantityChanged with 50 KILOGRAM leaves the quantity
  100 SEEDS.
\<close>

theorem Transition_skips_change_events:
  "Name (Transition (projr tomato_created) (MaterialNameChanged example_uid ''Cherry Tomato''))
     = ''Tomato Seeds''
   \<and> PricePerUnit (Transition (projr tomato_created)
        (MaterialPriceChanged example_uid (Some (EUR ''7.25'')))) = Some (EUR ''5.00'')
   \<and> Quantity (Transition (projr tomato_created)
        (MaterialQuantityChanged example_uid
           \<lparr>Value = Finite 50, Unit = \<lparr>Code = ''KILOGRAM'', Label = ''Kilogram''\<rparr>\<rparr>))
     = \<lparr>Value = Finite 100, Unit = \<lparr>Code = ''SEEDS'', Label = ''Seeds''\<rparr>\<rparr>"
  by (simp add: tomato_created_eq)

subsection \<open>Creation\<close>

lemma CreateMaterial_Inr:
  assumes "CreateMaterial newV4 name price priceUnit materialType quantity quantityUnit
             expirationDate notes producedBy isExpense = Inr m"
  shows "\<exists>uid money qu.
           newV4 = Inr uid \<and> CreateMoney price priceUnit = Inr money
         \<and> materialType \<noteq> None
         \<and> validateQuantity quantity = None
         \<and> validateQuantityUnit quantityUnit materialType = Inr qu
         \<and> m = \<lparr>UID = uid, Name = name, PricePerUnit = Some money, Type = materialType,
                Quantity = \<lparr>Value = quantity, Unit = qu\<rparr>,
                ExpirationDate = expirationDate, Notes = notes,
                IsExpense = isExpense, ProducedBy = producedBy, Version = 0,
                UncommittedChanges =
                  [MaterialCreated uid name (Some money) materialType
                     \<lparr>Value = quantity, Unit = qu\<rparr> expirationDate notes producedBy
                     isExpense]\<rparr>"
  using assms
  by (auto simp add: CreateMaterial_def Let_def TrackChange_MaterialCreated
      split: sum.splits option.splits if_splits)

lemma CreateMaterial_succeeds:
  assumes "price \<noteq> []" and "priceUnit = ''EUR''"
    and "\<not> float32_le_zero quantity"
    and "GetMaterialQuantityUnit (MaterialType_Code t) quantityUnit \<noteq> zero_MaterialQuantityUnit"
  shows "\<exists>m. CreateMaterial (Inr uid) name price priceUnit (Some t) quantity quantityUnit
             expirationDate notes producedBy isExpense = Inr m"
  using assms
  by (simp add: CreateMaterial_def CreateMoney_def MoneyEUR_def validateQuantity_def
      validateQuantityUnit_def Let_def)

text \<open>
  C5. Whenever \<open>CreateMaterial\<close> succeeds, the aggregate it returns has emitted the
  single event MaterialCreated, and each of the nine fields of that event (uid, name,
  pricePerUnit, type, quantity, expirationDate, notes, producedBy, isExpense) equals the
  field of the aggregate's current state.
\<close>

theorem CreateMaterial_state_equals_event:
  assumes "CreateMaterial newV4 name price priceUnit materialType quantity quantityUnit
             expirationDate notes producedBy isExpense = Inr m"
  shows "UncommittedChanges m =
           [MaterialCreated (UID m) (Name m) (PricePerUnit m) (Type m) (Quantity m)
              (ExpirationDate m) (Notes m) (ProducedBy m) (IsExpense m)]"
  using CreateMaterial_Inr [OF assms] by auto

theorem CreateMaterial_state_equals_event_witness:
  "tomato_created = Inr (projr tomato_created)
   \<and> UncommittedChanges (projr tomato_created) =
       [MaterialCreated example_uid ''Tomato Seeds'' (Some (EUR ''5.00'')) (Some SeedType)
          \<lparr>Value = Finite 100, Unit = \<lparr>Code = ''SEEDS'', Label = ''Seeds''\<rparr>\<rparr>
          None None None None]"
proof -
  have h: "CreateMaterial (Inr example_uid) ''Tomato Seeds'' ''5.00'' ''EUR'' (Some SeedType)
       (Finite 100) ''SEEDS'' None None None None = Inr (projr tomato_created)"
    using tomato_created_eq by (simp add: tomato_created_def)
  from CreateMaterial_state_equals_event [OF h] show ?thesis
    by (simp add: tomato_created_eq)
qed

subsection \<open>Commands\<close>

text \<open>
  C6. \<open>ChangeName\<close> fails with "cannot be empty" (InvalidInput) on the empty name;
  fails with "too few characters" (TooShort) on a non-empty name of at most 5 bytes; and
  on every name of 6 bytes or more it succeeds and appends exactly one event,
  MaterialNameChanged with the uid of the aggregate and the new name.
\<close>

theorem ChangeName_validation:
  "ChangeName m [] = (m, Some (errors_New ''cannot be empty''))
   \<and> (name \<noteq> [] \<and> length name \<le> 5 \<longrightarrow>
        ChangeName m name = (m, Some (errors_New ''too few characters'')))
   \<and> (6 \<le> length name \<longrightarrow>
        snd (ChangeName m name) = None
        \<and> UncommittedChanges (fst (ChangeName m name)) =
            UncommittedChanges m @ [MaterialNameChanged (UID m) name])"
  by (auto simp add: ChangeName_def TrackChange_def)

theorem ChangeName_validation_witness:
  "ChangeName (projr tomato_created) [] =
     (projr tomato_created, Some (errors_New ''cannot be empty''))
   \<and> ''abcde'' \<noteq> [] \<and> length ''abcde'' \<le> 5
   \<and> ChangeName (projr tomato_created) ''abcde'' =
       (projr tomato_created, Some (errors_New ''too few characters''))
   \<and> 6 \<le> length ''abcdef''
   \<and> snd (ChangeName (projr tomato_created) ''abcdef'') = None
   \<and> UncommittedChanges (fst (ChangeName (projr tomato_created) ''abcdef'')) =
       UncommittedChanges (projr tomato_created) @ [MaterialNameChanged example_uid ''abcdef'']"
  using ChangeName_validation [of "projr tomato_created" "''abcde''"]
    ChangeName_validation [of "projr tomato_created" "''abcdef''"]
  by (simp add: tomato_created_eq)

lemma ChangeQuantityUnit_success:
  assumes "ChangeQuantityUnit m quantity quantityUnit materialType = (m', None)"
  shows "\<exists>qu. validateQuantity quantity = None
           \<and> validateQuantityUnit quantityUnit materialType = Inr qu
           \<and> m' = m\<lparr>UncommittedChanges := UncommittedChanges m @
                       [MaterialQuantityChanged (UID m) \<lparr>Value = quantity, Unit = qu\<rparr>]\<rparr>"
  using assms
  by (auto simp add: ChangeQuantityUnit_def TrackChange_not_created
      split: option.splits sum.splits)

lemma command_outcome:
  assumes "apply_command m c = (m', r)"
  shows "(r = None \<and> (\<exists>e. m' = TrackChange m e
                          \<and> UncommittedChanges m' = UncommittedChanges m @ [e]))
       \<or> (\<exists>msg. r = Some (errors_New msg) \<and> m' = m)
       \<or> (r = Some runtime_panic \<and> m' = m
            \<and> (\<exists>quantity quantityUnit. c = DoChangeQuantityUnit quantity quantityUnit None))"
proof (cases c)
  case (DoChangeName name)
  with assms show ?thesis
    by (auto simp add: ChangeName_def TrackChange_not_created split: if_splits)
next
  case (DoChangePricePerUnit price priceUnit)
  with assms show ?thesis
    by (auto simp add: ChangePricePerUnit_def CreateMoney_def TrackChange_not_created
        split: if_splits)
next
  case (DoChangeQuantityUnit quantity quantityUnit materialType)
  with assms show ?thesis
    by (auto simp add: ChangeQuantityUnit_def validateQuantity_def validateQuantityUnit_def
        Let_def TrackChange_not_created split: if_splits option.splits)
qed

text \<open>
  C4. The claim is that every command either fails with a validation error or
  succeeds. \<open>ChangeQuantityUnit\<close> calls \<open>materialType.Code()\<close> without the nil check
  that \<open>CreateMaterial\<close> makes: with a valid quantity and a nil material type the call
  panics, which is neither a validation error nor a success. The aggregate is left as it
  was.
\<close>

theorem ChangeQuantityUnit_nil_type_panics:
  "ChangeQuantityUnit (projr tomato_created) (Finite 50) ''KILOGRAM'' None =
     (projr tomato_created, Some runtime_panic)"
  by (simp add: ChangeQuantityUnit_def validateQuantity_def validateQuantityUnit_def)

lemma CreateMaterial_stored_unit:
  assumes "CreateMaterial newV4 name price priceUnit materialType quantity quantityUnit
             expirationDate notes producedBy isExpense = Inr m"
  shows "\<exists>t. materialType = Some t
           \<and> Unit (Quantity m) \<in> set (MaterialQuantityUnits (MaterialType_Code t))
           \<and> Code (Unit (Quantity m)) = quantityUnit
           \<and> Unit (Quantity m) \<noteq> zero_MaterialQuantityUnit"
proof -
  from CreateMaterial_Inr [OF assms] obtain qu where
    "validateQuantityUnit quantityUnit materialType = Inr qu" and "Unit (Quantity m) = qu"
    by auto
  with validateQuantityUnit_Inr show ?thesis by metis
qed

lemma ChangeQuantityUnit_emitted_unit:
  assumes "ChangeQuantityUnit m quantity quantityUnit materialType = (m', None)"
  shows "\<exists>t qu. materialType = Some t
           \<and> UncommittedChanges m' = UncommittedChanges m @
                [MaterialQuantityChanged (UID m) \<lparr>Value = quantity, Unit = qu\<rparr>]
           \<and> qu \<in> set (MaterialQuantityUnits (MaterialType_Code t))
           \<and> Code qu = quantityUnit
           \<and> qu \<noteq> zero_MaterialQuantityUnit"
proof -
  from ChangeQuantityUnit_success [OF assms] obtain qu where
    qu: "validateQuantityUnit quantityUnit materialType = Inr qu"
    and "UncommittedChanges m' = UncommittedChanges m @
           [MaterialQuantityChanged (UID m) \<lparr>Value = quantity, Unit = qu\<rparr>]"
    by auto
  with validateQuantityUnit_Inr [OF qu] show ?thesis by blast
qed

text \<open>
  C10. The claim is that after a successful \<open>ChangeQuantityUnit\<close> the unit stored in
  the quantity of the aggregate has the code passed in. The event emitted carries that
  unit, but the fold ignores the event: after the end-to-end example's
  \<open>ChangeQuantityUnit(50, "KILOGRAM", SeedType)\<close> the stored unit still has the code
  "SEEDS".
\<close>

theorem ChangeQuantityUnit_stored_unit_stale:
  "snd tomato_changed = None
   \<and> last (UncommittedChanges (fst tomato_changed)) =
       MaterialQuantityChanged example_uid
         \<lparr>Value = Finite 50, Unit = \<lparr>Code = ''KILOGRAM'', Label = ''Kilogram''\<rparr>\<rparr>
   \<and> Code (Unit (Quantity (fst tomato_changed))) = ''SEEDS''
   \<and> Code (Unit (Quantity (fst tomato_changed))) \<noteq> ''KILOGRAM''"
  by (simp add: tomato_changed_eq)

text \<open>
  C2, as stated. After the creation of the end-to-end example the version is that of the
  zero state, and after the successful \<open>ChangeQuantityUnit(50, "KILOGRAM", SeedType)\<close>
  the quantity is still 100 SEEDS, not 50 KILOGRAM.
\<close>

theorem Create_then_ChangeQuantityUnit_counterexample:
  "tomato_created = Inr (projr tomato_created)
   \<and> Version (projr tomato_created) = Version zero_Material
   \<and> snd tomato_changed = None
   \<and> Quantity (fst tomato_changed) =
       \<lparr>Value = Finite 100, Unit = \<lparr>Code = ''SEEDS'', Label = ''Seeds''\<rparr>\<rparr>
   \<and> Quantity (fst tomato_changed) \<noteq>
       \<lparr>Value = Finite 50, Unit = \<lparr>Code = ''KILOGRAM'', Label = ''Kilogram''\<rparr>\<rparr>"
  by (simp add: tomato_changed_eq tomato_created_eq zero_Material_def)

text \<open>
  C2, amended. After a successful \<open>CreateMaterial\<close> the aggregate holds exactly one
  uncommitted event, the MaterialCreated event of its state, and its version is 0 (no
  command writes the version). A subsequent successful \<open>ChangeQuantityUnit\<close> leaves two
  events recorded, the second being MaterialQuantityChanged with the uid, the new value
  and a unit of the code passed in, and leaves the name, the price per unit and every
  other field apart from the quantity as they were.
\<close>

theorem Create_then_ChangeQuantityUnit:
  assumes "CreateMaterial newV4 name price priceUnit materialType quantity quantityUnit
             expirationDate notes producedBy isExpense = Inr m"
  shows "UncommittedChanges m =
           [MaterialCreated (UID m) (Name m) (PricePerUnit m) (Type m) (Quantity m)
              (ExpirationDate m) (Notes m) (ProducedBy m) (IsExpense m)]
         \<and> Version m = 0
         \<and> (ChangeQuantityUnit m quantity' quantityUnit' materialType' = (m', None) \<longrightarrow>
              length (UncommittedChanges m') = 2
            \<and> (\<exists>qu. UncommittedChanges m' =
                       UncommittedChanges m @
                         [MaterialQuantityChanged (UID m) \<lparr>Value = quantity', Unit = qu\<rparr>]
                    \<and> Code qu = quantityUnit')
            \<and> Name m' = Name m \<and> PricePerUnit m' = PricePerUnit m
            \<and> UID m' = UID m \<and> Type m' = Type m \<and> ExpirationDate m' = ExpirationDate m
            \<and> Notes m' = Notes m \<and> IsExpense m' = IsExpense m
            \<and> ProducedBy m' = ProducedBy m \<and> Version m' = Version m)"
proof (intro conjI impI)
  show "UncommittedChanges m =
           [MaterialCreated (UID m) (Name m) (PricePerUnit m) (Type m) (Quantity m)
              (ExpirationDate m) (Notes m) (ProducedBy m) (IsExpense m)]"
    using CreateMaterial_Inr [OF assms] by auto
  show "Version m = 0"
    using CreateMaterial_Inr [OF assms] by auto
next
  assume ch: "ChangeQuantityUnit m quantity' quantityUnit' materialType' = (m', None)"
  from ChangeQuantityUnit_success [OF ch] obtain qu where
    qu: "validateQuantityUnit quantityUnit' materialType' = Inr qu"
    and m': "m' = m\<lparr>UncommittedChanges := UncommittedChanges m @
                       [MaterialQuantityChanged (UID m) \<lparr>Value = quantity', Unit = qu\<rparr>]\<rparr>"
    by blast
  have one: "length (UncommittedChanges m) = 1"
    using CreateMaterial_Inr [OF assms] by auto
  show "length (UncommittedChanges m') = 2"
    using one m' by simp
  show "\<exists>qu. UncommittedChanges m' =
                UncommittedChanges m @
                  [MaterialQuantityChanged (UID m) \<lparr>Value = quantity', Unit = qu\<rparr>]
              \<and> Code qu = quantityUnit'"
    using m' validateQuantityUnit_Inr [OF qu] by auto
  show "Name m' = Name m" "PricePerUnit m' = PricePerUnit m" "UID m' = UID m"
    "Type m' = Type m" "ExpirationDate m' = ExpirationDate m" "Notes m' = Notes m"
    "IsExpense m' = IsExpense m" "ProducedBy m' = ProducedBy m" "Version m' = Version m"
    using m' by simp_all
qed

theorem Create_then_ChangeQuantityUnit_witness:
  "tomato_created = Inr (projr tomato_created)
   \<and> UncommittedChanges (projr tomato_created) =
       [MaterialCreated example_uid ''Tomato Seeds'' (Some (EUR ''5.00'')) (Some SeedType)
          \<lparr>Value = Finite 100, Unit = \<lparr>Code = ''SEEDS'', Label = ''Seeds''\<rparr>\<rparr>
          None None None None]
   \<and> Version (projr tomato_created) = 0
   \<and> tomato_changed = (fst tomato_changed, None)
   \<and> length (UncommittedChanges (fst tomato_changed)) = 2
   \<and> Name (fst tomato_changed) = ''Tomato Seeds''
   \<and> PricePerUnit (fst tomato_changed) = Some (EUR ''5.00'')"
proof -
  have c: "tomato_created = Inr (projr tomato_created)"
    by (simp add: tomato_created_eq)
  then have a: "CreateMaterial (Inr example_uid) ''Tomato Seeds'' ''5.00'' ''EUR''
       (Some SeedType) (Finite 100) ''SEEDS'' None None None None = Inr (projr tomato_created)"
    unfolding tomato_created_def .
  have d: "tomato_changed = (fst tomato_changed, None)"
    by (simp add: tomato_changed_eq)
  then have b: "ChangeQuantityUnit (projr tomato_created) (Finite 50) ''KILOGRAM''
       (Some SeedType) = (fst tomato_changed, None)"
    unfolding tomato_changed_def .
  have fields: "UID (projr tomato_created) = example_uid"
    "Name (projr tomato_created) = ''Tomato Seeds''"
    "PricePerUnit (projr tomato_created) = Some (EUR ''5.00'')"
    "Type (projr tomato_created) = Some SeedType"
    "Quantity (projr tomato_created) =
       \<lparr>Value = Finite 100, Unit = \<lparr>Code = ''SEEDS'', Label = ''Seeds''\<rparr>\<rparr>"
    "ExpirationDate (projr tomato_created) = None"
    "Notes (projr tomato_created) = None"
    "ProducedBy (projr tomato_created) = None"
    "IsExpense (projr tomato_created) = None"
    by (simp_all add: tomato_created_eq)
  from Create_then_ChangeQuantityUnit [OF a, of "Finite 50" "''KILOGRAM''" "Some SeedType"
      "fst tomato_changed"] b
  have "UncommittedChanges (projr tomato_created) =
       [MaterialCreated example_uid ''Tomato Seeds'' (Some (EUR ''5.00'')) (Some SeedType)
          \<lparr>Value = Finite 100, Unit = \<lparr>Code = ''SEEDS'', Label = ''Seeds''\<rparr>\<rparr>
          None None None None]"
    and "Version (projr tomato_created) = 0"
    and "length (UncommittedChanges (fst tomato_changed)) = 2"
    and "Name (fst tomato_changed) = ''Tomato Seeds''"
    and "PricePerUnit (fst tomato_changed) = Some (EUR ''5.00'')"
    by (simp_all add: fields)
  with c d show ?thesis by blast
qed

subsection \<open>Replay\<close>

lemma command_step:
  assumes "apply_command m c = (m', None)"
  shows "\<exists>e. UncommittedChanges m' = UncommittedChanges m @ [e]
           \<and> Transition (replay (UncommittedChanges m)) e = replay (UncommittedChanges m)
           \<and> state_fields m' = state_fields m \<and> Version m' = Version m"
proof (cases c)
  case (DoChangeName name)
  with assms show ?thesis
    by (auto simp add: ChangeName_def TrackChange_not_created state_fields_def
        split: if_splits)
next
  case (DoChangePricePerUnit price priceUnit)
  with assms show ?thesis
    by (auto simp add: ChangePricePerUnit_def TrackChange_not_created state_fields_def
        split: sum.splits)
next
  case (DoChangeQuantityUnit quantity quantityUnit materialType)
  with assms show ?thesis
    by (auto simp add: ChangeQuantityUnit_def TrackChange_not_created state_fields_def
        split: sum.splits option.splits)
qed

lemma replay_snoc: "replay (events @ [e]) = Transition (replay events) e"
  by (simp add: replay_def)

lemma commands_replay:
  assumes "apply_commands m cs = (m', None)"
    and "state_fields (replay (UncommittedChanges m)) = state_fields m"
  shows "state_fields (replay (UncommittedChanges m')) = state_fields m'
         \<and> length (UncommittedChanges m') = length (UncommittedChanges m) + length cs"
  using assms
proof (induction cs arbitrary: m)
  case Nil
  then show ?case by simp
next
  case (Cons c cs)
  from Cons.prems(1) obtain m1 where step: "apply_command m c = (m1, None)"
    and rest: "apply_commands m1 cs = (m', None)"
    by (auto split: prod.splits option.splits)
  from command_step [OF step] obtain e where
    e: "UncommittedChanges m1 = UncommittedChanges m @ [e]"
      "Transition (replay (UncommittedChanges m)) e = replay (UncommittedChanges m)"
      "state_fields m1 = state_fields m"
    by blast
  have "state_fields (replay (UncommittedChanges m1)) = state_fields m1"
    using e Cons.prems(2) by (simp add: replay_snoc)
  from Cons.IH [OF rest this] e(1) show ?case by simp
qed

lemma created_replay:
  assumes "CreateMaterial newV4 name price priceUnit materialType quantity quantityUnit
             expirationDate notes producedBy isExpense = Inr m"
  shows "state_fields (replay (UncommittedChanges m)) = state_fields m"
  using CreateMaterial_Inr [OF assms]
  by (auto simp add: replay_def state_fields_def zero_Material_def)

text \<open>
  C3. For a successful \<open>CreateMaterial\<close> followed by any sequence of \<open>ChangeName\<close>,
  \<open>ChangePricePerUnit\<close> and \<open>ChangeQuantityUnit\<close> calls that all succeed, the fold of
  \<open>Transition\<close> over the events emitted (one by the creation and one by each command),
  from the zero state, has the same uid, name, pricePerUnit, type, quantity,
  expirationDate, notes, isExpense and producedBy as the aggregate the commands were
  applied to.
\<close>

theorem replay_equivalence:
  assumes "CreateMaterial newV4 name price priceUnit materialType quantity quantityUnit
             expirationDate notes producedBy isExpense = Inr m0"
    and "apply_commands m0 cs = (m, None)"
  shows "state_fields (foldl Transition zero_Material (UncommittedChanges m)) = state_fields m
         \<and> length (UncommittedChanges m) = 1 + length cs"
proof -
  have "length (UncommittedChanges m0) = 1"
    using CreateMaterial_Inr [OF assms(1)] by auto
  with commands_replay [OF assms(2) created_replay [OF assms(1)]]
  show ?thesis by (simp add: replay_def)
qed

lemma tomato_commands_run:
  "snd (apply_commands (projr tomato_created) tomato_commands) = None"
  by (simp add: tomato_commands_def tomato_created_eq ChangeName_def ChangePricePerUnit_def
      ChangeQuantityUnit_def CreateMoney_def MoneyEUR_def
      validateQuantity_def validateQuantityUnit_def GetMaterialQuantityUnit_def
      MaterialQuantityUnits_def SeedType_def MaterialTypeSeedCode_def MaterialUnit_defs
      zero_MaterialQuantityUnit_def Let_def TrackChange_def)

theorem replay_equivalence_witness:
  "tomato_created = Inr (projr tomato_created)
   \<and> snd (apply_commands (projr tomato_created) tomato_commands) = None
   \<and> state_fields (foldl Transition zero_Material
        (UncommittedChanges (fst (apply_commands (projr tomato_created) tomato_commands)))) =
      state_fields (fst (apply_commands (projr tomato_created) tomato_commands))
   \<and> length (UncommittedChanges (fst (apply_commands (projr tomato_created) tomato_commands)))
      = 4"
proof -
  have c: "tomato_created = Inr (projr tomato_created)"
    by (simp add: tomato_created_eq)
  then have a: "CreateMaterial (Inr example_uid) ''Tomato Seeds'' ''5.00'' ''EUR''
       (Some SeedType) (Finite 100) ''SEEDS'' None None None None = Inr (projr tomato_created)"
    unfolding tomato_created_def .
  have b: "apply_commands (projr tomato_created) tomato_commands =
     (fst (apply_commands (projr tomato_created) tomato_commands), None)"
    using tomato_commands_run by (simp add: prod_eq_iff)
  have three: "length tomato_commands = 3"
    by (simp add: tomato_commands_def)
  from replay_equivalence [OF a b]
  have r: "state_fields (foldl Transition zero_Material
        (UncommittedChanges (fst (apply_commands (projr tomato_created) tomato_commands)))) =
      state_fields (fst (apply_commands (projr tomato_created) tomato_commands))"
    and l: "length (UncommittedChanges
        (fst (apply_commands (projr tomato_created) tomato_commands))) = 4"
    unfolding three by simp_all
  from c tomato_commands_run r l show ?thesis by blast
qed

end
